theory Spec2Isabelle
  imports
    Complex_Main
    "HOL-Library.Multiset"
    "HOL-Library.Sublist"
    "HOL-Library.Char_ord"
    "HOL-Library.List_Lexorder"
begin

section \<open>JavaScript values used by the pages\<close>

text \<open>
  A JavaScript string is modelled as a \<^typ>\<open>string\<close>, a character standing for a code
  unit; the relational operators on two strings compare them lexicographically by code
  unit, which is the order that \<^theory_text>\<open>List_Lexorder\<close> and \<^theory_text>\<open>Char_ord\<close>
  give to \<^typ>\<open>string\<close>. A JavaScript \<open>number\<close> that was read from a JSON body is never
  \<open>NaN\<close>; it is modelled as a \<^typ>\<open>real\<close>.

  \<open>String.prototype.toLowerCase\<close> is a built-in of the engine. It follows the case
  mapping of Unicode, which is neither written in the pages nor a conversion character
  by character, so the mapping is not defined here: it is the parameter \<open>lc\<close> of every
  function of a page that lower-cases a string, and every property below holds whatever
  the mapping is. One fact about the built-in is kept: the empty string has nothing to
  convert.
\<close>

definition toLowerCase :: "(string \<Rightarrow> string) \<Rightarrow> string \<Rightarrow> string" where
  "toLowerCase lc s = (if s = [] then [] else lc s)"

text \<open>
  \<open>String.prototype.includes\<close>, named \<open>str_includes\<close> here: the needle occurs at some
  position of the receiver.
\<close>

fun str_includes :: "string \<Rightarrow> string \<Rightarrow> bool" where
  "str_includes [] q = (q = [])"
| "str_includes (c # cs) q = (prefix q (c # cs) \<or> str_includes cs q)"

text \<open>
  \<open>Array.prototype.sort\<close> with a comparator. The language requires the sort to be stable;
  with a consistent comparator the result is the stable sorted arrangement, computed here
  by insertion: an element is placed after exactly those elements of the already sorted
  rest for which the comparator returns a positive number. For the comparator of the
  table that arrangement is the only one (lemma \<open>sortedPlayers_unique\<close> below), so the
  choice of the algorithm does not show.
\<close>

fun insert_cmp :: "('a \<Rightarrow> 'a \<Rightarrow> int) \<Rightarrow> 'a \<Rightarrow> 'a list \<Rightarrow> 'a list" where
  "insert_cmp cmp x [] = [x]"
| "insert_cmp cmp x (y # ys) =
     (if cmp x y \<le> 0 then x # y # ys else y # insert_cmp cmp x ys)"

definition array_sort :: "('a \<Rightarrow> 'a \<Rightarrow> int) \<Rightarrow> 'a list \<Rightarrow> 'a list" where
  "array_sort cmp xs = foldr (insert_cmp cmp) xs []"

section \<open>Player statistics page\<close>

text \<open>
  \<open>player-stats/page.tsx\<close>. The interface \<open>PlayerStat\<close>; the field \<open>id\<close> is named
  \<open>player_id\<close> here.
\<close>

record PlayerStat =
  player_id :: real
  name :: string
  team :: string
  position :: string
  points :: real
  rebounds :: real
  assists :: real
  games :: real

datatype SortField = Name | Team | Points | Rebounds | Assists | Games

datatype SortDirection = Asc | Desc

text \<open>The component state: one field for each \<open>useState\<close> of \<open>PlayerStatsPage\<close>.\<close>

record PlayerStatsState =
  players :: "PlayerStat list"
  loading :: bool
  error :: string
  sortField :: SortField
  sortDirection :: SortDirection

text \<open>
  The value of \<open>a[sortField]\<close> is a string or a number, depending on the field.
\<close>

datatype jsval = Str string | Num real

fun field_value :: "PlayerStat \<Rightarrow> SortField \<Rightarrow> jsval" where
  "field_value a Name = Str (name a)"
| "field_value a Team = Str (team a)"
| "field_value a Points = Num (points a)"
| "field_value a Rebounds = Num (rebounds a)"
| "field_value a Assists = Num (assists a)"
| "field_value a Games = Num (games a)"

text \<open>
  The operator \<open><\<close> on the two values read. Both come from the same field, so they are
  two strings or two numbers; the mixed cases do not arise.
\<close>

fun js_less :: "jsval \<Rightarrow> jsval \<Rightarrow> bool" where
  "js_less (Str a) (Str b) = (a < b)"
| "js_less (Num a) (Num b) = (a < b)"
| "js_less _ _ = False"

text \<open>The comparator passed to \<open>sort\<close> (lines 97 to 110).\<close>

definition compare_players ::
  "(string \<Rightarrow> string) \<Rightarrow> SortField \<Rightarrow> SortDirection \<Rightarrow> PlayerStat \<Rightarrow> PlayerStat \<Rightarrow> int" where
  "compare_players lc field dir a b =
     (let aValue = field_value a field;
          bValue = field_value b field;
          (aValue, bValue) =
            (case (aValue, bValue) of
               (Str s, Str t) \<Rightarrow> (Str (toLowerCase lc s), Str (toLowerCase lc t))
             | _ \<Rightarrow> (aValue, bValue))
      in if js_less aValue bValue then (if dir = Asc then - 1 else 1)
         else if js_less bValue aValue then (if dir = Asc then 1 else - 1)
         else 0)"

definition sortedPlayers :: "(string \<Rightarrow> string) \<Rightarrow> PlayerStatsState \<Rightarrow> PlayerStat list" where
  "sortedPlayers lc st =
     array_sort (compare_players lc (sortField st) (sortDirection st)) (players st)"

text \<open>\<open>handleSort\<close> (lines 85 to 94): the state after a click on a column header.\<close>

definition handleSort :: "SortField \<Rightarrow> PlayerStatsState \<Rightarrow> PlayerStatsState" where
  "handleSort field st =
     (if sortField st = field
      then st\<lparr>sortDirection := (if sortDirection st = Asc then Desc else Asc)\<rparr>
      else st\<lparr>sortField := field,
              sortDirection := (if field = Name \<or> field = Team then Asc else Desc)\<rparr>)"


text \<open>
  Arrays are objects: a variable holds a reference, and \<open>sort\<close> rearranges the array it
  is called on and returns that same array. Whether the fetched list survives a render
  depends on this, so the arrays also get a store: a list of arrays, a reference being a
  position in it. The spread \<open>[...players]\<close> allocates a new array with the same elements.
\<close>

type_synonym ref = nat

type_synonym store = "PlayerStat list list"

definition spread :: "store \<Rightarrow> ref \<Rightarrow> store \<times> ref" where
  "spread h r = (h @ [h ! r], length h)"

definition sort_in_place ::
  "(PlayerStat \<Rightarrow> PlayerStat \<Rightarrow> int) \<Rightarrow> store \<Rightarrow> ref \<Rightarrow> store \<times> ref" where
  "sort_in_place cmp h r = (h[r := array_sort cmp (h ! r)], r)"

text \<open>
  Line 97 on the store: \<open>players_ref\<close> is the reference held by the state variable
  \<open>players\<close>; the result is the store after the render and the reference of
  \<open>sortedPlayers\<close>.
\<close>

definition sortedPlayers_store ::
  "(string \<Rightarrow> string) \<Rightarrow> store \<Rightarrow> ref \<Rightarrow> SortField \<Rightarrow> SortDirection \<Rightarrow> store \<times> ref" where
  "sortedPlayers_store lc h players_ref field dir =
     (let (h1, copy) = spread h players_ref
      in sort_in_place (compare_players lc field dir) h1 copy)"

section \<open>Teams page\<close>

text \<open>
  \<open>teams/page.tsx\<close>. The fields \<open>id\<close> and \<open>name\<close> of the interface \<open>Team\<close> are named
  \<open>team_id\<close> and \<open>team_name\<close> here, the state variables \<open>loading\<close> and \<open>error\<close> are named
  \<open>teams_loading\<close> and \<open>teams_error\<close>.
\<close>

record Team =
  team_id :: real
  team_name :: string
  city :: string
  conference :: string

record TeamsState =
  teams :: "Team list"
  teams_loading :: bool
  teams_error :: string
  searchQuery :: string

definition filteredTeams :: "(string \<Rightarrow> string) \<Rightarrow> TeamsState \<Rightarrow> Team list" where
  "filteredTeams lc st =
     filter (\<lambda>t.
        let query = toLowerCase lc (searchQuery st)
        in str_includes (toLowerCase lc (team_name t)) query \<or>
           str_includes (toLowerCase lc (city t)) query)
       (teams st)"

definition clearSearch :: "TeamsState \<Rightarrow> TeamsState" where
  "clearSearch st = st\<lparr>searchQuery := ''''\<rparr>"

definition easternTeams :: "(string \<Rightarrow> string) \<Rightarrow> TeamsState \<Rightarrow> Team list" where
  "easternTeams lc st = filter (\<lambda>t. conference t = ''Eastern'') (filteredTeams lc st)"

definition westernTeams :: "(string \<Rightarrow> string) \<Rightarrow> TeamsState \<Rightarrow> Team list" where
  "westernTeams lc st = filter (\<lambda>t. conference t = ''Western'') (filteredTeams lc st)"

text \<open>
  What \<open>TeamsPage\<close> returns, as far as the teams are concerned: one of the three early
  panels, or the page with the count line under the search bar (present when the query is
  not empty), the "No teams found" panel and the two conference sections (each present
  when it has a team), a card for every team of the section.
\<close>

datatype teams_view =
  LoadingPanel
| ErrorPanel string
| EmptyPanel
| TeamsView "nat option" bool "Team list option" "Team list option"

definition TeamsPage :: "(string \<Rightarrow> string) \<Rightarrow> TeamsState \<Rightarrow> teams_view" where
  "TeamsPage lc st =
     (if teams_loading st then LoadingPanel
      else if teams_error st \<noteq> '''' then ErrorPanel (teams_error st)
      else if length (teams st) = 0 then EmptyPanel
      else TeamsView
        (if searchQuery st \<noteq> '''' then Some (length (filteredTeams lc st)) else None)
        (length (filteredTeams lc st) = 0 \<and> searchQuery st \<noteq> '''')
        (if length (easternTeams lc st) > 0 then Some (easternTeams lc st) else None)
        (if length (westernTeams lc st) > 0 then Some (westernTeams lc st) else None))"

text \<open>The teams that have a card in the Eastern, respectively Western, section of a view.\<close>

fun eastern_cards :: "teams_view \<Rightarrow> Team list" where
  "eastern_cards (TeamsView found none (Some ts) west) = ts"
| "eastern_cards _ = []"

fun western_cards :: "teams_view \<Rightarrow> Team list" where
  "western_cards (TeamsView found none east (Some ts)) = ts"
| "western_cards _ = []"

text \<open>The number shown in the line "Found n teams matching ...", when the line is shown.\<close>

fun found_total :: "teams_view \<Rightarrow> nat option" where
  "found_total (TeamsView found none east west) = found"
| "found_total _ = None"

section \<open>The result of a fetch\<close>

text \<open>
  \<open>await fetch(...)\<close> either throws (the request did not reach the server) or gives a
  response with a status; \<open>res.ok\<close> holds for the statuses 200 to 299. \<open>await res.json()\<close>
  gives the parsed body, or throws when the body is not JSON: the body is \<open>None\<close> then.
\<close>

datatype json =
  JNull
| JBool bool
| JNum real
| JStr string
| JArr "json list"
| JObj "(string \<times> json) list"

datatype fetch_result =
  FetchFailed string
| FetchResponse nat "json option"

definition response_ok :: "nat \<Rightarrow> bool" where
  "response_ok status = (200 \<le> status \<and> status \<le> 299)"

text \<open>A status inside a template literal: the decimal digits of the number.\<close>

fun string_of_nat :: "nat \<Rightarrow> string" where
  "string_of_nat n =
     (if n < 10 then [char_of (48 + n)]
      else string_of_nat (n div 10) @ [char_of (48 + n mod 10)])"

declare string_of_nat.simps [simp del]

text \<open>The values a \<open>throw\<close> carries: the kind of the error and its message.\<close>

datatype js_error = Error string | TypeError string | SyntaxError string

section \<open>Stadiums page\<close>

text \<open>
  \<open>fetchStadiums\<close> (lines 37 to 54 of the stadiums page). The type annotation
  \<open>StadiumsResponse\<close> is erased when the page runs, so \<open>data\<close> is whatever JSON value the
  body holds. \<open>data.stadiums\<close> is the property of an object, \<open>undefined\<close> (here \<open>None\<close>) on an
  object without it and on an array, a string, a number and a boolean, and a
  \<open>TypeError\<close> on \<open>null\<close>.
\<close>

fun stadiums_property :: "json \<Rightarrow> js_error + json option" where
  "stadiums_property JNull =
     Inl (TypeError ''Cannot read properties of null (reading 'stadiums')'')"
| "stadiums_property (JObj members) = Inr (map_of members ''stadiums'')"
| "stadiums_property _ = Inr None"

text \<open>The truthiness that \<open>||\<close> tests.\<close>

fun truthy :: "json option \<Rightarrow> bool" where
  "truthy None = False"
| "truthy (Some JNull) = False"
| "truthy (Some (JBool b)) = b"
| "truthy (Some (JNum n)) = (n \<noteq> 0)"
| "truthy (Some (JStr s)) = (s \<noteq> [])"
| "truthy (Some (JArr xs)) = True"
| "truthy (Some (JObj members)) = True"

text \<open>
  The \<open>catch\<close> logs the error and throws it again, so every error of the body is the
  error of \<open>fetchStadiums\<close>.
\<close>

definition fetchStadiums :: "fetch_result \<Rightarrow> js_error + json" where
  "fetchStadiums r =
     (case r of
        FetchFailed msg \<Rightarrow> Inl (TypeError msg)
      | FetchResponse status body \<Rightarrow>
          if \<not> response_ok status
          then Inl (Error (''API error: '' @ string_of_nat status))
          else (case body of
                  None \<Rightarrow> Inl (SyntaxError ''Unexpected token'')
                | Some data \<Rightarrow>
                    (case stadiums_property data of
                       Inl e \<Rightarrow> Inl e
                     | Inr v \<Rightarrow>
                         Inr (case v of
                                Some stadiums \<Rightarrow> if truthy v then stadiums else JArr []
                              | None \<Rightarrow> JArr []))))"

section \<open>Add player page\<close>

text \<open>
  \<open>add-player/page.tsx\<close>. The state of the form, and \<open>handleSubmit\<close> with the result of
  its one \<open>fetch\<close>: what is set before the request, what the \<open>try\<close> and the \<open>catch\<close> set,
  and the \<open>finally\<close> last.
\<close>

record AddPlayerState =
  playerName :: string
  playerPosition :: string
  playerTeam :: string
  errorMessage :: string
  isLoading :: bool

definition handleSubmit :: "fetch_result \<Rightarrow> AddPlayerState \<Rightarrow> AddPlayerState" where
  "handleSubmit r st =
     (let st1 = st\<lparr>isLoading := True, errorMessage := ''''\<rparr>;
          st2 =
            (case r of
               FetchResponse status body \<Rightarrow>
                 if \<not> response_ok status then
                   (if status = 401 then
                      st1\<lparr>errorMessage := ''Error '' @ string_of_nat status @
                        '': Unauthorized. API key is required or invalid.''\<rparr>
                    else if status = 403 then
                      st1\<lparr>errorMessage := ''Error '' @ string_of_nat status @
                        '': Forbidden. Invalid API key provided.''\<rparr>
                    else if status = 404 then
                      st1\<lparr>errorMessage := ''Error '' @ string_of_nat status @
                        '': API endpoint not found. The /api/players route does not exist.''\<rparr>
                    else if status = 429 then
                      st1\<lparr>errorMessage := ''Error '' @ string_of_nat status @
                        '': Rate limit exceeded. Please try again later.''\<rparr>
                    else
                      st1\<lparr>errorMessage := ''Error '' @ string_of_nat status @
                        '': Failed to create player''\<rparr>)
                 else
                   st1\<lparr>playerName := '''', playerPosition := '''', playerTeam := '''',
                       errorMessage := ''Player created successfully!''\<rparr>
             | FetchFailed msg \<Rightarrow>
                 st1\<lparr>errorMessage := ''Network error: Failed to connect to the server''\<rparr>)
      in st2\<lparr>isLoading := False\<rparr>)"

section \<open>The words of the specification\<close>

text \<open>
  The order of two records by a column, as the specification words it: a text column
  (name, team) by its text without regard to case, a numeric column (points, rebounds,
  assists, games) by its number. \<open>key_eq\<close> says that the keys of two records compare equal.
\<close>

fun key_le :: "(string \<Rightarrow> string) \<Rightarrow> SortField \<Rightarrow> PlayerStat \<Rightarrow> PlayerStat \<Rightarrow> bool" where
  "key_le lc Name a b = (toLowerCase lc (name a) \<le> toLowerCase lc (name b))"
| "key_le lc Team a b = (toLowerCase lc (team a) \<le> toLowerCase lc (team b))"
| "key_le lc Points a b = (points a \<le> points b)"
| "key_le lc Rebounds a b = (rebounds a \<le> rebounds b)"
| "key_le lc Assists a b = (assists a \<le> assists b)"
| "key_le lc Games a b = (games a \<le> games b)"

fun key_eq :: "(string \<Rightarrow> string) \<Rightarrow> SortField \<Rightarrow> PlayerStat \<Rightarrow> PlayerStat \<Rightarrow> bool" where
  "key_eq lc Name a b = (toLowerCase lc (name a) = toLowerCase lc (name b))"
| "key_eq lc Team a b = (toLowerCase lc (team a) = toLowerCase lc (team b))"
| "key_eq lc Points a b = (points a = points b)"
| "key_eq lc Rebounds a b = (rebounds a = rebounds b)"
| "key_eq lc Assists a b = (assists a = assists b)"
| "key_eq lc Games a b = (games a = games b)"

definition in_order ::
  "(string \<Rightarrow> string) \<Rightarrow> SortField \<Rightarrow> SortDirection \<Rightarrow> PlayerStat \<Rightarrow> PlayerStat \<Rightarrow> bool" where
  "in_order lc f d a b = (case d of Asc \<Rightarrow> key_le lc f a b | Desc \<Rightarrow> key_le lc f b a)"

text \<open>The two kinds of column.\<close>

definition text_field :: "SortField \<Rightarrow> bool" where
  "text_field f = (f = Name \<or> f = Team)"

definition numeric_field :: "SortField \<Rightarrow> bool" where
  "numeric_field f = (f = Points \<or> f = Rebounds \<or> f = Assists \<or> f = Games)"

definition opposite :: "SortDirection \<Rightarrow> SortDirection" where
  "opposite d = (case d of Asc \<Rightarrow> Desc | Desc \<Rightarrow> Asc)"

text \<open>
  A text contains a query as a case-insensitive substring: at some position of the text
  in lower case stands the query in lower case.
\<close>

definition contains_ci :: "(string \<Rightarrow> string) \<Rightarrow> string \<Rightarrow> string \<Rightarrow> bool" where
  "contains_ci lc txt q =
     (\<exists>i\<in>{0..length (toLowerCase lc txt)}.
        take (length (toLowerCase lc q)) (drop i (toLowerCase lc txt)) = toLowerCase lc q)"

text \<open>
  A submission fails: the request did not reach the server, or the status of the response
  is not one of 200 to 299.
\<close>

fun submission_failed :: "fetch_result \<Rightarrow> bool" where
  "submission_failed (FetchFailed msg) = True"
| "submission_failed (FetchResponse status content) = (status < 200 \<or> 300 \<le> status)"

section \<open>Sample data\<close>

text \<open>
  The sample strings have ASCII characters only. On such strings the built-in puts
  \<open>A\<close> .. \<open>Z\<close> to \<open>a\<close> .. \<open>z\<close> and keeps every other character; \<open>ascii_lower\<close> is the
  mapping the examples run with.
\<close>

definition ascii_lower_char :: "char \<Rightarrow> char" where
  "ascii_lower_char c =
     (if (65::nat) \<le> of_char c \<and> of_char c \<le> (90::nat)
      then char_of (of_char c + (32::nat)) else c)"

definition ascii_lower :: "string \<Rightarrow> string" where
  "ascii_lower s = map ascii_lower_char s"

definition lebron :: PlayerStat where
  "lebron = \<lparr>player_id = 1, name = ''LeBron James'', team = ''Lakers'', position = ''SF'',
     points = 25.7, rebounds = 7.3, assists = 8.3, games = 71\<rparr>"

definition davis :: PlayerStat where
  "davis = \<lparr>player_id = 2, name = ''anthony davis'', team = ''LAKERS'', position = ''PF'',
     points = 24.7, rebounds = 12.6, assists = 3.5, games = 76\<rparr>"

definition steph :: PlayerStat where
  "steph = \<lparr>player_id = 3, name = ''Stephen Curry'', team = ''Warriors'', position = ''PG'',
     points = 26.4, rebounds = 4.5, assists = 5.1, games = 74\<rparr>"

definition stats_page :: "SortField \<Rightarrow> SortDirection \<Rightarrow> PlayerStatsState" where
  "stats_page f d =
     \<lparr>players = [lebron, davis, steph], loading = False, error = '''',
      sortField = f, sortDirection = d\<rparr>"

definition celtics :: Team where
  "celtics = \<lparr>team_id = 1, team_name = ''Boston Celtics'', city = ''Boston'',
     conference = ''Eastern''\<rparr>"

definition lakers :: Team where
  "lakers = \<lparr>team_id = 2, team_name = ''Los Angeles Lakers'', city = ''Los Angeles'',
     conference = ''Western''\<rparr>"

definition stars :: Team where
  "stars = \<lparr>team_id = 3, team_name = ''Boston All Stars'', city = ''Boston'',
     conference = ''eastern''\<rparr>"

definition teams_page :: "string \<Rightarrow> TeamsState" where
  "teams_page q =
     \<lparr>teams = [celtics, lakers, stars], teams_loading = False, teams_error = [],
      searchQuery = q\<rparr>"

definition form :: AddPlayerState where
  "form = \<lparr>playerName = ''LeBron James'', playerPosition = ''Forward'',
     playerTeam = ''Lakers'', errorMessage = [], isLoading = False\<rparr>"

definition arena :: json where
  "arena = JObj [(''id'', JNum 1), (''name'', JStr ''Chase Center''),
     (''team'', JStr ''Warriors''), (''capacity'', JNum 18064)]"

text \<open>
  Beyond ASCII: on strings of the code units below 256 the built-in also puts the
  letters \<open>U+00C0\<close> .. \<open>U+00DE\<close> (all but the sign \<open>U+00D7\<close>) to \<open>U+00E0\<close> .. \<open>U+00FE\<close>.
\<close>

definition latin1_lower_char :: "char \<Rightarrow> char" where
  "latin1_lower_char c =
     (if ((65::nat) \<le> of_char c \<and> of_char c \<le> (90::nat)) \<or>
         ((192::nat) \<le> of_char c \<and> of_char c \<le> (222::nat) \<and> of_char c \<noteq> (215::nat))
      then char_of (of_char c + (32::nat)) else c)"

definition latin1_lower :: "string \<Rightarrow> string" where
  "latin1_lower s = map latin1_lower_char s"

definition royal :: Team where
  "royal = \<lparr>team_id = 4, team_name = ''MONTR'' @ [CHR 0xC9] @ ''AL Royal'',
     city = ''Montreal'', conference = ''Eastern''\<rparr>"

definition accent_low :: PlayerStat where
  "accent_low = \<lparr>player_id = 1, name = [CHR 0xE9], team = ''A'', position = ''C'',
     points = 1, rebounds = 1, assists = 1, games = 1\<rparr>"

definition accent_up :: PlayerStat where
  "accent_up = \<lparr>player_id = 2, name = [CHR 0xC9], team = ''A'', position = ''C'',
     points = 1, rebounds = 1, assists = 1, games = 1\<rparr>"

section \<open>The sort\<close>

lemma mset_insert_cmp: "mset (insert_cmp cmp x ys) = add_mset x (mset ys)"
  by (induction ys) auto

lemma mset_array_sort: "mset (array_sort cmp xs) = mset xs"
  by (induction xs) (auto simp: array_sort_def mset_insert_cmp)

lemma set_insert_cmp: "set (insert_cmp cmp x ys) = insert x (set ys)"
  by (induction ys) auto

text \<open>
  With a comparator that is total and transitive, insertion keeps a sorted list sorted.
\<close>

lemma sorted_insert_cmp:
  assumes tot: "\<And>a b. 0 < cmp a b \<Longrightarrow> cmp b a \<le> 0"
    and trans: "\<And>a b c. cmp a b \<le> 0 \<Longrightarrow> cmp b c \<le> 0 \<Longrightarrow> cmp a c \<le> 0"
    and srt: "sorted_wrt (\<lambda>a b. cmp a b \<le> 0) ys"
  shows "sorted_wrt (\<lambda>a b. cmp a b \<le> 0) (insert_cmp cmp x ys)"
  using srt
proof (induction ys)
  case Nil
  then show ?case by simp
next
  case (Cons y ys)
  show ?case
  proof (cases "cmp x y \<le> 0")
    case True
    with Cons.prems show ?thesis by (auto intro: trans)
  next
    case False
    then have "cmp y x \<le> 0" using tot[of x y] by simp
    with False Cons show ?thesis by (auto simp: set_insert_cmp)
  qed
qed

lemma sorted_array_sort:
  assumes tot: "\<And>a b. 0 < cmp a b \<Longrightarrow> cmp b a \<le> 0"
    and trans: "\<And>a b c. cmp a b \<le> 0 \<Longrightarrow> cmp b c \<le> 0 \<Longrightarrow> cmp a c \<le> 0"
  shows "sorted_wrt (\<lambda>a b. cmp a b \<le> 0) (array_sort cmp xs)"
proof (induction xs)
  case Nil
  show ?case by (simp add: array_sort_def)
next
  case (Cons x xs)
  have "array_sort cmp (x # xs) = insert_cmp cmp x (array_sort cmp xs)"
    by (simp add: array_sort_def)
  with Cons show ?case using sorted_insert_cmp[of cmp, OF tot trans] by simp
qed

text \<open>
  Stability: the elements of a class on which the comparator never returns a positive
  number keep their order.
\<close>

lemma filter_insert_cmp:
  assumes "\<And>y. P x \<Longrightarrow> P y \<Longrightarrow> cmp x y \<le> 0"
  shows "filter P (insert_cmp cmp x ys) = (if P x then x # filter P ys else filter P ys)"
  using assms by (induction ys) auto

lemma filter_array_sort:
  assumes "\<And>x y. P x \<Longrightarrow> P y \<Longrightarrow> cmp x y \<le> 0"
  shows "filter P (array_sort cmp xs) = filter P xs"
proof (induction xs)
  case Nil
  show ?case by (simp add: array_sort_def)
next
  case (Cons x xs)
  have "array_sort cmp (x # xs) = insert_cmp cmp x (array_sort cmp xs)"
    by (simp add: array_sort_def)
  with Cons show ?case using filter_insert_cmp[of P x cmp] assms by simp
qed

subsection \<open>The comparator of the table against the order of the specification\<close>

lemma compare_players_le: "compare_players lc f d a b \<le> 0 \<longleftrightarrow> in_order lc f d a b"
  by (cases f; cases d) (auto simp: compare_players_def in_order_def)

lemma compare_players_key_eq: "key_eq lc f a b \<Longrightarrow> compare_players lc f d a b = 0"
  by (cases f) (auto simp: compare_players_def)

lemma key_eq_trans: "key_eq lc f p x \<Longrightarrow> key_eq lc f p y \<Longrightarrow> key_eq lc f x y"
  by (cases f) auto

lemma in_order_total: "\<not> in_order lc f d a b \<Longrightarrow> in_order lc f d b a"
  by (cases f; cases d) (auto simp: in_order_def)

lemma in_order_trans: "in_order lc f d a b \<Longrightarrow> in_order lc f d b c \<Longrightarrow> in_order lc f d a c"
  by (cases f; cases d) (auto simp: in_order_def)

subsection \<open>The sorted list of the table\<close>

lemma sortedPlayers_in_order:
  "sorted_wrt (in_order lc (sortField st) (sortDirection st)) (sortedPlayers lc st)"
proof -
  let ?f = "sortField st" and ?d = "sortDirection st"
  let ?cmp = "compare_players lc ?f ?d"
  have "sorted_wrt (\<lambda>a b. ?cmp a b \<le> 0) (array_sort ?cmp (players st))"
  proof (rule sorted_array_sort)
    fix a b assume "0 < ?cmp a b"
    then have "\<not> in_order lc ?f ?d a b" by (simp add: compare_players_le [symmetric])
    then show "?cmp b a \<le> 0" by (simp add: compare_players_le in_order_total)
  next
    fix a b c assume "?cmp a b \<le> 0" "?cmp b c \<le> 0"
    then show "?cmp a c \<le> 0" unfolding compare_players_le by (rule in_order_trans)
  qed
  then show ?thesis by (simp add: compare_players_le sortedPlayers_def)
qed

lemma sortedPlayers_keeps_ties:
  "filter (key_eq lc (sortField st) p) (sortedPlayers lc st) =
   filter (key_eq lc (sortField st) p) (players st)"
  unfolding sortedPlayers_def
proof (rule filter_array_sort)
  fix x y assume "key_eq lc (sortField st) p x" "key_eq lc (sortField st) p y"
  then have "key_eq lc (sortField st) x y" by (rule key_eq_trans)
  then show "compare_players lc (sortField st) (sortDirection st) x y \<le> 0"
    by (simp add: compare_players_key_eq)
qed

lemma mset_sortedPlayers: "mset (sortedPlayers lc st) = mset (players st)"
  by (simp add: sortedPlayers_def mset_array_sort)

text \<open>
  Order, stability and the same records determine the list: whatever stable sort the
  engine runs, the table shows \<open>sortedPlayers\<close>.
\<close>

lemma key_eq_iff_in_order: "key_eq lc f a b \<longleftrightarrow> in_order lc f d a b \<and> in_order lc f d b a"
  by (cases f; cases d) (auto simp: in_order_def)

lemma key_eq_refl: "key_eq lc f a a"
  by (cases f) auto

lemma in_order_refl: "in_order lc f d a a"
  by (cases f; cases d) (auto simp: in_order_def)

lemma sorted_head_least:
  assumes "sorted_wrt (in_order lc f d) (y # ys)" and "z \<in> set (y # ys)"
  shows "in_order lc f d y z"
  using assms by (auto simp: in_order_refl)

lemma stable_sorted_unique:
  assumes "sorted_wrt (in_order lc f d) ys" and "sorted_wrt (in_order lc f d) zs"
    and "mset ys = mset zs"
    and "\<And>p. filter (key_eq lc f p) ys = filter (key_eq lc f p) zs"
  shows "ys = zs"
  using assms
proof (induction ys arbitrary: zs)
  case Nil
  then show ?case by simp
next
  case (Cons y ys)
  from Cons.prems(3) obtain z zs' where zs: "zs = z # zs'" by (cases zs) auto
  have "set (y # ys) = set zs" using Cons.prems(3) by (metis set_mset_mset)
  then have yin: "y \<in> set (z # zs')" and zin: "z \<in> set (y # ys)"
    using zs by auto
  have "in_order lc f d y z" using Cons.prems(1) zin by (rule sorted_head_least)
  moreover have "in_order lc f d z y" using Cons.prems(2) yin unfolding zs by (rule sorted_head_least)
  ultimately have tie: "key_eq lc f y z" by (simp add: key_eq_iff_in_order [of lc f y z d])
  from Cons.prems(4) [of y] tie have same: "y = z" by (simp add: zs key_eq_refl)
  have "ys = zs'"
  proof (rule Cons.IH)
    show "sorted_wrt (in_order lc f d) ys" using Cons.prems(1) by simp
    show "sorted_wrt (in_order lc f d) zs'" using Cons.prems(2) by (simp add: zs)
    show "mset ys = mset zs'" using Cons.prems(3) by (simp add: zs same)
    show "filter (key_eq lc f p) ys = filter (key_eq lc f p) zs'" for p
      using Cons.prems(4) [of p] by (simp add: zs same split: if_splits)
  qed
  with same zs show ?case by simp
qed

lemma sortedPlayers_unique:
  assumes "sorted_wrt (in_order lc (sortField st) (sortDirection st)) ys"
    and "mset ys = mset (players st)"
    and "\<And>p. filter (key_eq lc (sortField st) p) ys = filter (key_eq lc (sortField st) p) (players st)"
  shows "ys = sortedPlayers lc st"
  using assms(1) sortedPlayers_in_order
proof (rule stable_sorted_unique)
  show "mset ys = mset (sortedPlayers lc st)"
    using assms(2) by (simp add: mset_sortedPlayers)
  show "filter (key_eq lc (sortField st) p) ys =
      filter (key_eq lc (sortField st) p) (sortedPlayers lc st)" for p
    using assms(3) [of p] by (simp add: sortedPlayers_keeps_ties)
qed

section \<open>Properties of the player statistics page\<close>

text \<open>
  C1. For every list of records, every sort field and every direction, and whatever the
  case mapping of the engine is, the sorted list of the table is in the order of that
  field (text fields by their lower-cased text, numeric fields by number; ascending or
  descending as the direction says), the records whose keys compare equal stand in the
  order they had in the fetched list, and the sorted list has the same records as the
  fetched list.
\<close>

theorem sortedPlayers_stable_order:
  "sorted_wrt (in_order lc (sortField st) (sortDirection st)) (sortedPlayers lc st) \<and>
   (\<forall>p. filter (key_eq lc (sortField st) p) (sortedPlayers lc st) =
        filter (key_eq lc (sortField st) p) (players st)) \<and>
   mset (sortedPlayers lc st) = mset (players st)"
  by (simp add: sortedPlayers_in_order sortedPlayers_keeps_ties mset_sortedPlayers)

text \<open>
  By team, descending: the two Lakers (written \<open>Lakers\<close> and \<open>LAKERS\<close>) compare equal
  and keep their order behind the Warrior.
\<close>

theorem sortedPlayers_stable_order_witness:
  "sortedPlayers ascii_lower (stats_page Team Desc) = [steph, lebron, davis] \<and>
   sorted_wrt (in_order ascii_lower Team Desc) (sortedPlayers ascii_lower (stats_page Team Desc)) \<and>
   filter (key_eq ascii_lower Team lebron) (sortedPlayers ascii_lower (stats_page Team Desc)) = [lebron, davis]"
proof -
  have run: "sortedPlayers ascii_lower (stats_page Team Desc) = [steph, lebron, davis]"
    by code_simp
  have before: "filter (key_eq ascii_lower Team lebron) [lebron, davis, steph] = [lebron, davis]"
    by code_simp
  from sortedPlayers_stable_order [of ascii_lower "stats_page Team Desc"] run before
  show ?thesis by (simp add: stats_page_def)
qed

text \<open>
  Two names that differ in the case of an accented letter compare equal under a mapping
  that lower-cases it, and keep their order.
\<close>

lemma sortedPlayers_accent:
  "sortedPlayers latin1_lower
     \<lparr>players = [accent_low, accent_up], loading = False, error = [],
      sortField = Name, sortDirection = Asc\<rparr> = [accent_low, accent_up]"
  by code_simp

subsection \<open>Clicking a column header\<close>

text \<open>
  C2. A click on the active column flips the direction and keeps the field; a click on
  another column makes it the sort field, ascending for a text column (name, team) and
  descending for a numeric column (points, rebounds, assists, games). The fetched list,
  the loading flag and the error text are not touched.
\<close>

theorem handleSort_click:
  "(sortField st = f \<longrightarrow>
      sortField (handleSort f st) = f \<and>
      sortDirection (handleSort f st) = opposite (sortDirection st)) \<and>
   (sortField st \<noteq> f \<longrightarrow>
      sortField (handleSort f st) = f \<and>
      (text_field f \<longrightarrow> sortDirection (handleSort f st) = Asc) \<and>
      (numeric_field f \<longrightarrow> sortDirection (handleSort f st) = Desc)) \<and>
   (text_field f \<or> numeric_field f) \<and>
   players (handleSort f st) = players st \<and>
   loading (handleSort f st) = loading st \<and>
   error (handleSort f st) = error st"
  by (cases f; cases "sortDirection st")
     (auto simp: handleSort_def text_field_def numeric_field_def opposite_def)

theorem handleSort_click_witness:
  "sortDirection (handleSort Points (stats_page Points Desc)) = Asc \<and>
   sortDirection (handleSort Points (stats_page Points Asc)) = Desc \<and>
   sortField (handleSort Name (stats_page Points Desc)) = Name \<and>
   sortDirection (handleSort Name (stats_page Points Desc)) = Asc \<and>
   sortField (handleSort Games (stats_page Points Asc)) = Games \<and>
   sortDirection (handleSort Games (stats_page Points Asc)) = Desc"
  using handleSort_click [of "stats_page Points Desc" Points]
    handleSort_click [of "stats_page Points Asc" Points]
    handleSort_click [of "stats_page Points Desc" Name]
    handleSort_click [of "stats_page Points Asc" Games]
  by (simp add: stats_page_def text_field_def numeric_field_def opposite_def)

subsection \<open>Toggling a column\<close>

lemma handleSort_active:
  "sortField st = f \<Longrightarrow>
   handleSort f st = st\<lparr>sortDirection := opposite (sortDirection st)\<rparr>"
  by (cases "sortDirection st") (simp_all add: handleSort_def opposite_def)

lemma opposite_opposite: "opposite (opposite d) = d"
  by (cases d) (simp_all add: opposite_def)

lemma opposite_neq: "opposite d \<noteq> d"
  by (cases d) (simp_all add: opposite_def)

lemma handleSort_makes_active: "sortField (handleSort f st) = f"
  by (simp add: handleSort_def)

lemma handleSort_twice: "sortField st = f \<Longrightarrow> handleSort f (handleSort f st) = st"
  by (simp add: handleSort_active opposite_opposite)

lemma handleSort_iterate:
  "sortField st = f \<Longrightarrow>
   (handleSort f ^^ n) st =
     (if even n then st else st\<lparr>sortDirection := opposite (sortDirection st)\<rparr>)"
proof (induction n)
  case 0
  show ?case by simp
next
  case (Suc n)
  then show ?case by (simp add: handleSort_active opposite_opposite)
qed

text \<open>
  C5. On the active column every click turns the direction into the other one, so after
  \<open>n\<close> clicks the direction is the first one for an even \<open>n\<close> and the other one for an odd
  \<open>n\<close>; two clicks give back the state, and with it the order the table displays.
\<close>

theorem double_toggle:
  assumes "sortField st = f"
  shows "sortDirection (handleSort f st) = opposite (sortDirection st) \<and>
    opposite (sortDirection st) \<noteq> sortDirection st \<and>
    sortDirection ((handleSort f ^^ n) st) =
      (if even n then sortDirection st else opposite (sortDirection st)) \<and>
    handleSort f (handleSort f st) = st \<and>
    sortedPlayers lc (handleSort f (handleSort f st)) = sortedPlayers lc st"
proof -
  have twice: "handleSort f (handleSort f st) = st"
    using assms by (rule handleSort_twice)
  have once: "sortDirection (handleSort f st) = opposite (sortDirection st)"
    using assms by (simp add: handleSort_active)
  have many: "sortDirection ((handleSort f ^^ n) st) =
      (if even n then sortDirection st else opposite (sortDirection st))"
    using assms by (simp add: handleSort_iterate)
  from twice once many show ?thesis by (simp add: opposite_neq)
qed

theorem double_toggle_witness:
  "sortField (stats_page Name Asc) = Name \<and>
   sortedPlayers ascii_lower (stats_page Name Asc) = [davis, lebron, steph] \<and>
   sortedPlayers ascii_lower (handleSort Name (stats_page Name Asc)) = [steph, lebron, davis] \<and>
   sortedPlayers ascii_lower (handleSort Name (handleSort Name (stats_page Name Asc))) =
     [davis, lebron, steph] \<and>
   sortDirection (handleSort Name (stats_page Name Asc)) = Desc \<and>
   sortDirection ((handleSort Name ^^ 3) (stats_page Name Asc)) = Desc"
proof -
  have active: "sortField (stats_page Name Asc) = Name" by (simp add: stats_page_def)
  have once: "sortedPlayers ascii_lower (handleSort Name (stats_page Name Asc)) = [steph, lebron, davis]"
    by code_simp
  have start: "sortedPlayers ascii_lower (stats_page Name Asc) = [davis, lebron, steph]"
    by code_simp
  from double_toggle [OF active, where n = 3 and lc = ascii_lower] once start show ?thesis
    by (simp add: stats_page_def opposite_def)
qed

subsection \<open>The sort and the fetched list\<close>

text \<open>
  Sorting the array of the state variable itself would rearrange the fetched list.
\<close>

lemma sort_in_place_rearranges:
  "sort_in_place (compare_players ascii_lower Points Desc) [[lebron, davis, steph]] 0 =
     ([[steph, lebron, davis]], 0)"
  by code_simp

text \<open>
  C8. The sorted list has the same records as the fetched list, each as often, and the
  render leaves the array of the state variable \<open>players\<close>, and every array that was in
  the store, as it was: the sorted array is a new one. It holds the list that
  \<open>sortedPlayers\<close> gives for the fetched list.
\<close>

theorem sort_leaves_players:
  assumes "players_ref < length h"
  shows "(case sortedPlayers_store lc h players_ref f d of
      (h', sorted_ref) \<Rightarrow>
        mset (h' ! sorted_ref) = mset (h ! players_ref) \<and>
        h' ! players_ref = h ! players_ref \<and>
        take (length h) h' = h \<and>
        sorted_ref \<noteq> players_ref \<and>
        h' ! sorted_ref =
          sortedPlayers lc \<lparr>players = h ! players_ref, loading = l, error = e,
            sortField = f, sortDirection = d\<rparr>)"
  using assms
  by (simp add: sortedPlayers_store_def spread_def sort_in_place_def sortedPlayers_def
      mset_array_sort nth_append)

theorem sort_leaves_players_witness:
  "(0::nat) < length [[lebron, davis, steph]] \<and>
   sortedPlayers_store ascii_lower [[lebron, davis, steph]] 0 Points Desc =
     ([[lebron, davis, steph], [steph, lebron, davis]], 1) \<and>
   mset [steph, lebron, davis] = mset [lebron, davis, steph]"
proof -
  have run: "sortedPlayers_store ascii_lower [[lebron, davis, steph]] 0 Points Desc =
     ([[lebron, davis, steph], [steph, lebron, davis]], 1)" by code_simp
  have allocated: "(0::nat) < length [[lebron, davis, steph]]" by simp
  note sort_leaves_players [OF allocated, where lc = ascii_lower and f = Points and d = Desc and l = False
      and e = "[]"]
  from this [unfolded run prod.case]
  have "mset ([[lebron, davis, steph], [steph, lebron, davis]] ! 1) =
      mset ([[lebron, davis, steph]] ! 0)"
    by (rule conjunct1)
  then have "mset [steph, lebron, davis] = mset [lebron, davis, steph]" by simp
  with run show ?thesis by simp
qed

section \<open>Properties of the teams page\<close>

lemma str_includes_sublist: "str_includes s q \<longleftrightarrow> sublist q s"
  by (induction s) (simp_all add: sublist_Cons_right)

lemma str_includes_empty: "str_includes s []"
  by (cases s) simp_all

lemma sublist_iff_segment:
  "sublist q s \<longleftrightarrow> (\<exists>i\<in>{0..length s}. take (length q) (drop i s) = q)"
proof
  assume "sublist q s"
  then obtain ps ss where s: "s = ps @ q @ ss" by (auto simp: sublist_def)
  then have "take (length q) (drop (length ps) s) = q" by simp
  moreover have "length ps \<in> {0..length s}" using s by simp
  ultimately show "\<exists>i\<in>{0..length s}. take (length q) (drop i s) = q" by blast
next
  assume "\<exists>i\<in>{0..length s}. take (length q) (drop i s) = q"
  then obtain i where i: "take (length q) (drop i s) = q" by blast
  have whole: "take i s @ drop i s = s"
    by (rule append_take_drop_id)
  have rest: "take (length q) (drop i s) @ drop (length q) (drop i s) = drop i s"
    by (rule append_take_drop_id)
  from rest i have "q @ drop (length q) (drop i s) = drop i s" by (simp only:)
  with whole have "s = take i s @ q @ drop (length q) (drop i s)" by (simp only:)
  then show "sublist q s" unfolding sublist_def by blast
qed

lemma includes_lower_iff:
  "str_includes (toLowerCase lc txt) (toLowerCase lc q) \<longleftrightarrow> contains_ci lc txt q"
  by (simp add: str_includes_sublist sublist_iff_segment contains_ci_def)

lemma filteredTeams_eq:
  "filteredTeams lc st =
     filter (\<lambda>t. contains_ci lc (team_name t) (searchQuery st) \<or>
                 contains_ci lc (city t) (searchQuery st)) (teams st)"
  by (simp add: filteredTeams_def includes_lower_iff)

text \<open>
  C3. Whatever the case mapping of the engine is, the filtered teams are a sublist of the
  fetched teams, in their order, and each of them has a name or a city that contains the
  query as a case-insensitive substring.
\<close>

theorem filteredTeams_sound:
  "subseq (filteredTeams lc st) (teams st) \<and>
   set (filteredTeams lc st) \<subseteq> set (teams st) \<and>
   (\<forall>t\<in>set (filteredTeams lc st).
      contains_ci lc (team_name t) (searchQuery st) \<or> contains_ci lc (city t) (searchQuery st))"
  by (auto simp: filteredTeams_eq)

theorem filteredTeams_sound_witness:
  "filteredTeams ascii_lower (teams_page ''ANGEL'') = [lakers] \<and>
   subseq [lakers] [celtics, lakers, stars] \<and>
   (contains_ci ascii_lower ''Los Angeles Lakers'' ''ANGEL'' \<or> contains_ci ascii_lower ''Los Angeles'' ''ANGEL'')"
proof -
  have run: "filteredTeams ascii_lower (teams_page ''ANGEL'') = [lakers]" by code_simp
  from filteredTeams_sound [of ascii_lower "teams_page ''ANGEL''"] run show ?thesis
    by (simp add: teams_page_def lakers_def)
qed

text \<open>
  A query in lower case finds the team whose name has the accented letter in upper case.
\<close>

lemma filteredTeams_accent:
  "filteredTeams latin1_lower
     \<lparr>teams = [royal], teams_loading = False, teams_error = [],
      searchQuery = ''montr'' @ [CHR 0xE9] @ ''al''\<rparr> = [royal]"
  by code_simp

text \<open>
  C4. With the empty query, typed or set by the clear button, the filter gives the whole
  list of teams unchanged.
\<close>

theorem empty_query_identity:
  "filteredTeams lc (st\<lparr>searchQuery := ''''\<rparr>) = teams st \<and>
   filteredTeams lc (clearSearch st) = teams st"
  by (simp add: filteredTeams_def clearSearch_def toLowerCase_def str_includes_empty)

theorem empty_query_identity_witness:
  "filteredTeams ascii_lower (teams_page '''') = [celtics, lakers, stars]"
  using empty_query_identity [of ascii_lower "teams_page ''boston''"]
  by (simp add: teams_page_def)

text \<open>
  C9. When the page shows the teams (the fetch is over and gave no error), a filtered team
  has a card in the Eastern Conference section exactly when its conference is the string
  \<open>Eastern\<close>, and in the Western Conference section exactly when it is \<open>Western\<close>. The total
  under the search bar is the number of all filtered teams: those of the two sections and
  those whose conference is any other string, which have no card.
\<close>

theorem conference_sections:
  assumes "\<not> teams_loading st" and "teams_error st = ''''"
    and "t \<in> set (filteredTeams lc st)"
  shows "(t \<in> set (eastern_cards (TeamsPage lc st)) \<longleftrightarrow> conference t = ''Eastern'') \<and>
    (t \<in> set (western_cards (TeamsPage lc st)) \<longleftrightarrow> conference t = ''Western'') \<and>
    (searchQuery st \<noteq> '''' \<longrightarrow> found_total (TeamsPage lc st) = Some (length (filteredTeams lc st))) \<and>
    length (filteredTeams lc st) =
      length (eastern_cards (TeamsPage lc st)) + length (western_cards (TeamsPage lc st)) +
      length (filter (\<lambda>t. conference t \<noteq> ''Eastern'' \<and> conference t \<noteq> ''Western'')
        (filteredTeams lc st))"
proof -
  have "set (filteredTeams lc st) \<subseteq> set (teams st)" by (auto simp: filteredTeams_def)
  with assms(3) have ne: "teams st \<noteq> []" by auto
  have east: "eastern_cards (TeamsPage lc st) = easternTeams lc st"
    using assms(1,2) ne by (simp add: TeamsPage_def)
  have west: "western_cards (TeamsPage lc st) = westernTeams lc st"
    using assms(1,2) ne by (simp add: TeamsPage_def)
  have found: "searchQuery st \<noteq> '''' \<Longrightarrow>
      found_total (TeamsPage lc st) = Some (length (filteredTeams lc st))"
    using assms(1,2) ne by (simp add: TeamsPage_def)
  have split: "length xs =
      length (filter (\<lambda>t. conference t = ''Eastern'') xs) +
      length (filter (\<lambda>t. conference t = ''Western'') xs) +
      length (filter (\<lambda>t. conference t \<noteq> ''Eastern'' \<and> conference t \<noteq> ''Western'') xs)"
    for xs :: "Team list"
    by (induction xs) auto
  show ?thesis
    using assms(3) found split [of "filteredTeams lc st"]
    by (simp add: east west easternTeams_def westernTeams_def)
qed

theorem conference_sections_witness:
  "filteredTeams ascii_lower (teams_page ''boston'') = [celtics, stars] \<and>
   celtics \<in> set (eastern_cards (TeamsPage ascii_lower (teams_page ''boston''))) \<and>
   stars \<notin> set (eastern_cards (TeamsPage ascii_lower (teams_page ''boston''))) \<and>
   stars \<notin> set (western_cards (TeamsPage ascii_lower (teams_page ''boston''))) \<and>
   found_total (TeamsPage ascii_lower (teams_page ''boston'')) = Some 2"
proof -
  have run: "filteredTeams ascii_lower (teams_page ''boston'') = [celtics, stars]" by code_simp
  have shown: "\<not> teams_loading (teams_page ''boston'')"
    "teams_error (teams_page ''boston'') = ''''"
    by (simp_all add: teams_page_def)
  have c: "celtics \<in> set (filteredTeams ascii_lower (teams_page ''boston''))"
    and s: "stars \<in> set (filteredTeams ascii_lower (teams_page ''boston''))"
    using run by simp_all
  have q: "searchQuery (teams_page ''boston'') \<noteq> ''''" by (simp add: teams_page_def)
  from conference_sections [OF shown c] conference_sections [OF shown s] run q
  show ?thesis by (simp add: celtics_def stars_def)
qed

section \<open>Properties of the add player form\<close>

text \<open>
  C10. After a submission that fails (a network error, or a response whose status is not
  200 to 299) the name, the position and the team are what was entered; after a
  successful response the three fields are empty; and after every outcome the loading
  flag is false.
\<close>

theorem handleSubmit_outcome:
  "(submission_failed r \<longrightarrow>
      playerName (handleSubmit r st) = playerName st \<and>
      playerPosition (handleSubmit r st) = playerPosition st \<and>
      playerTeam (handleSubmit r st) = playerTeam st) \<and>
   (\<not> submission_failed r \<longrightarrow>
      playerName (handleSubmit r st) = '''' \<and>
      playerPosition (handleSubmit r st) = '''' \<and>
      playerTeam (handleSubmit r st) = '''') \<and>
   isLoading (handleSubmit r st) = False"
proof (cases r)
  case (FetchFailed msg)
  then show ?thesis by (simp add: handleSubmit_def Let_def)
next
  case (FetchResponse status content)
  show ?thesis
  proof (cases "response_ok status")
    case True
    with FetchResponse show ?thesis
      by (simp add: handleSubmit_def response_ok_def Let_def)
  next
    case False
    then have "status < 200 \<or> 300 \<le> status" by (auto simp: response_ok_def)
    with False FetchResponse show ?thesis
      by (simp add: handleSubmit_def Let_def)
  qed
qed

theorem handleSubmit_outcome_witness:
  "playerName (handleSubmit (FetchResponse 403 None) form) = ''LeBron James'' \<and>
   playerTeam (handleSubmit (FetchFailed ''Failed to fetch'') form) = ''Lakers'' \<and>
   playerPosition (handleSubmit (FetchResponse 201 None) form) = '''' \<and>
   isLoading (handleSubmit (FetchResponse 500 None) form) = False"
  using handleSubmit_outcome [of "FetchResponse 403 None" form]
    handleSubmit_outcome [of "FetchFailed ''Failed to fetch''" form]
    handleSubmit_outcome [of "FetchResponse 201 None" form]
    handleSubmit_outcome [of "FetchResponse 500 None" form]
  by (simp add: form_def)

text \<open>The message the form shows for a rejected key.\<close>

lemma handleSubmit_forbidden_message:
  "errorMessage (handleSubmit (FetchResponse 403 None) form) =
     ''Error 403: Forbidden. Invalid API key provided.''"
  by code_simp

section \<open>Properties of the stadiums page\<close>

text \<open>
  C7, as the code has it. For a response with a status of 200 to 299: from a body of the
  wrapped shape, an object whose member \<open>stadiums\<close> is an array, \<open>fetchStadiums\<close> gives
  that array; from a body that is a bare array it gives the empty array.
\<close>

theorem fetchStadiums_shapes:
  assumes "response_ok status"
  shows "(map_of members ''stadiums'' = Some (JArr xs) \<longrightarrow>
      fetchStadiums (FetchResponse status (Some (JObj members))) = Inr (JArr xs)) \<and>
    fetchStadiums (FetchResponse status (Some (JArr xs))) = Inr (JArr [])"
  using assms by (simp add: fetchStadiums_def)

theorem fetchStadiums_shapes_witness:
  "response_ok 200 \<and>
   fetchStadiums (FetchResponse 200 (Some (JObj [(''stadiums'', JArr [arena])]))) =
     Inr (JArr [arena]) \<and>
   fetchStadiums (FetchResponse 200 (Some (JArr [arena]))) = Inr (JArr [])"
proof -
  have ok: "response_ok 200" by (simp add: response_ok_def)
  from fetchStadiums_shapes [OF ok, of "[(''stadiums'', JArr [arena])]" "[arena]"] ok
  show ?thesis by simp
qed

text \<open>
  The claim that a bare array gives the stadiums it holds fails: the array of one stadium
  does not come back.
\<close>

theorem fetchStadiums_bare_array_counterexample:
  "response_ok 200 \<and>
   fetchStadiums (FetchResponse 200 (Some (JArr [arena]))) = Inr (JArr []) \<and>
   fetchStadiums (FetchResponse 200 (Some (JArr [arena]))) \<noteq> Inr (JArr [arena])"
  by (simp add: fetchStadiums_def response_ok_def)

end
